theory Spec2Isabelle
  imports Complex_Main
begin

section \<open>JavaScript values and built-ins the server relies on\<close>

text \<open>
  Timestamps are what \<^verbatim>\<open>Date.getTime()\<close> yields: milliseconds since the epoch.
  Identifiers are the strings \<^verbatim>\<open>randomUUID()\<close> returns; the model takes the drawn
  identifier and the current time as explicit arguments of every operation that
  draws one, and an operation that reads the clock more than once is given one
  reading. Numbers are integers: \<^verbatim>\<open>NaN\<close> and fractions are left out.
\<close>

type_synonym timestamp = int

text \<open>
  A thrown exception is a value. \<open>Error m\<close> is \<^verbatim>\<open>new Error(m)\<close>; the other three
  are what \<^verbatim>\<open>jwt.verify\<close> of the jsonwebtoken package throws.
\<close>

datatype error =
    Error string
  | JsonWebTokenError string
  | TokenExpiredError
  | NotBeforeError

text \<open>\<^verbatim>\<open>try { body } catch (e) { handler }\<close> over results.\<close>

definition try_catch :: "error + 'a \<Rightarrow> (error \<Rightarrow> error + 'a) \<Rightarrow> error + 'a" where
  "try_catch body handler = (case body of Inl e \<Rightarrow> handler e | Inr v \<Rightarrow> Inr v)"

text \<open>
  A JavaScript \<^verbatim>\<open>Map\<close> iterates in insertion order, \<^verbatim>\<open>set\<close> on a present key
  replaces the value in place, and \<^verbatim>\<open>delete\<close> removes the entry: an association
  list with the oldest entry first.
\<close>

primrec Map_set :: "('k \<times> 'v) list \<Rightarrow> 'k \<Rightarrow> 'v \<Rightarrow> ('k \<times> 'v) list" where
  "Map_set [] k v = [(k, v)]"
| "Map_set (p # m) k v = (if fst p = k then (k, v) # m else p # Map_set m k v)"

definition Map_get :: "('k \<times> 'v) list \<Rightarrow> 'k \<Rightarrow> 'v option" where
  "Map_get m k = map_of m k"

definition Map_delete :: "('k \<times> 'v) list \<Rightarrow> 'k \<Rightarrow> ('k \<times> 'v) list" where
  "Map_delete m k = filter (\<lambda>p. fst p \<noteq> k) m"

definition Map_values :: "('k \<times> 'v) list \<Rightarrow> 'v list" where
  "Map_values m = map snd m"

text \<open>
  \<^verbatim>\<open>Array.prototype.slice(start, end)\<close> on integer arguments: a negative index
  counts from the end, and both are clamped to the array.
\<close>

definition slice :: "'a list \<Rightarrow> int \<Rightarrow> int \<Rightarrow> 'a list" where
  "slice xs start fin =
     (let len = int (length xs);
          k = (if start < 0 then max (len + start) 0 else min start len);
          final = (if fin < 0 then max (len + fin) 0 else min fin len)
      in take (nat (final - k)) (drop (nat k) xs))"

text \<open>
  \<^verbatim>\<open>Array.prototype.sort(cmp)\<close> is stable: an element goes before the first one
  it does not compare greater than, so equal elements keep their order.
\<close>

primrec insert_sorted :: "('a \<Rightarrow> 'a \<Rightarrow> int) \<Rightarrow> 'a \<Rightarrow> 'a list \<Rightarrow> 'a list" where
  "insert_sorted cmp x [] = [x]"
| "insert_sorted cmp x (y # ys) =
     (if cmp x y \<le> 0 then x # y # ys else y # insert_sorted cmp x ys)"

definition sort_js :: "('a \<Rightarrow> 'a \<Rightarrow> int) \<Rightarrow> 'a list \<Rightarrow> 'a list" where
  "sort_js cmp xs = foldr (insert_sorted cmp) xs []"

text \<open>\<^verbatim>\<open>String.prototype.includes\<close>: the argument occurs as a contiguous substring.\<close>

primrec startsWith :: "string \<Rightarrow> string \<Rightarrow> bool" where
  "startsWith s [] = True"
| "startsWith s (c # cs) = (case s of [] \<Rightarrow> False | d # ds \<Rightarrow> d = c \<and> startsWith ds cs)"

primrec includes_js :: "string \<Rightarrow> string \<Rightarrow> bool" where
  "includes_js [] t = (t = [])"
| "includes_js (c # cs) t = (startsWith (c # cs) t \<or> includes_js cs t)"

section \<open>The schema's records\<close>

text \<open>
  A created row is the inserted record spread into a new object together with its
  \<^verbatim>\<open>id\<close> and \<^verbatim>\<open>createdAt\<close>. Field names that several tables share carry the table's
  name as a prefix.
\<close>

record InsertUser =
  username :: string
  email :: string
  password :: string

record User = InsertUser +
  user_id :: string
  user_createdAt :: timestamp

record UserWithoutPassword =
  pub_username :: string
  pub_email :: string
  pub_id :: string
  pub_createdAt :: timestamp

record JWTPayload =
  userId :: string
  payload_username :: string

text \<open>
  A nullable text column is an optional string; \<^verbatim>\<open>x || null\<close> sends the empty
  string to \<^verbatim>\<open>null\<close> as well. The like counter is a number, on which
  \<^verbatim>\<open>x || 0\<close> is \<open>x\<close>.
\<close>

definition or_null :: "string option \<Rightarrow> string option" where
  "or_null x = (case x of None \<Rightarrow> None | Some v \<Rightarrow> if v = [] then None else Some v)"

definition or_zero :: "int \<Rightarrow> int" where
  "or_zero x = (if x = 0 then 0 else x)"

text \<open>An optional string argument is truthy when it is supplied and not empty.\<close>

definition truthy :: "string option \<Rightarrow> bool" where
  "truthy x = (case x of None \<Rightarrow> False | Some v \<Rightarrow> v \<noteq> [])"

record InsertArticle =
  title :: string
  description :: "string option"
  content :: "string option"
  url :: string
  imageUrl :: "string option"
  category :: string
  source :: string
  publishedAt :: timestamp

record Article = InsertArticle +
  article_id :: string
  likes :: int
  article_createdAt :: timestamp

record Like =
  like_id :: string
  like_userId :: string
  like_articleId :: string
  like_createdAt :: timestamp

record InsertBookmark =
  bookmark_userId :: string
  resourceType :: string
  resourceId :: string
  bookmark_title :: string

record Bookmark = InsertBookmark +
  bookmark_id :: string
  bookmark_createdAt :: timestamp

record InsertTnpscResource =
  resource_title :: string
  resource_category :: string
  subject :: string
  examStage :: string
  fileUrl :: "string option"
  resource_description :: "string option"

record TnpscResource = InsertTnpscResource +
  resource_id :: string
  resource_createdAt :: timestamp

section \<open>MemStorage\<close>

record MemStorage =
  mem_users :: "(string \<times> User) list"
  mem_articles :: "(string \<times> Article) list"
  mem_likes :: "(string \<times> Like) list"
  mem_bookmarks :: "(string \<times> Bookmark) list"
  mem_tnpscResources :: "(string \<times> TnpscResource) list"

subsection \<open>User operations\<close>

definition getUserByUsername :: "MemStorage \<Rightarrow> string \<Rightarrow> User option" where
  "getUserByUsername s name = find (\<lambda>user. username user = name) (Map_values (mem_users s))"

definition getUserByEmail :: "MemStorage \<Rightarrow> string \<Rightarrow> User option" where
  "getUserByEmail s mail = find (\<lambda>user. email user = mail) (Map_values (mem_users s))"

definition createUser :: "string \<Rightarrow> timestamp \<Rightarrow> InsertUser \<Rightarrow> MemStorage \<Rightarrow> User \<times> MemStorage" where
  "createUser newId now insertUser s =
     (let user = \<lparr>username = username insertUser, email = email insertUser,
                  password = password insertUser, user_id = newId, user_createdAt = now\<rparr>
      in (user, s\<lparr>mem_users := Map_set (mem_users s) newId user\<rparr>))"

section \<open>AuthService\<close>

text \<open>
  The bcrypt and jsonwebtoken packages are outside the repository; the service is
  modelled over any implementation of the four calls it makes. \<open>bcrypt_hash\<close> takes
  the salt that \<^verbatim>\<open>bcrypt.hash(password, 10)\<close> draws, \<open>jwt_sign\<close> and \<open>jwt_verify\<close>
  take the clock, and \<open>jwt_sign\<close> takes the validity in seconds. Tokens are strings
  in the source; the model leaves their representation open.
\<close>

record 'tok crypto =
  bcrypt_hash :: "string \<Rightarrow> string \<Rightarrow> string"
  bcrypt_compare :: "string \<Rightarrow> string \<Rightarrow> bool"
  jwt_sign :: "JWTPayload \<Rightarrow> string \<Rightarrow> int \<Rightarrow> timestamp \<Rightarrow> 'tok"
  jwt_verify :: "'tok \<Rightarrow> string \<Rightarrow> timestamp \<Rightarrow> error + JWTPayload"

text \<open>
  What the two packages promise: a password matches every hash made of it, and a
  token verifies under the secret that signed it, to the payload it was signed
  with, until its validity (counted in whole seconds) is over.
\<close>

definition crypto_ok :: "'tok crypto \<Rightarrow> bool" where
  "crypto_ok L \<longleftrightarrow>
     (\<forall>salt pw. bcrypt_compare L pw (bcrypt_hash L salt pw)) \<and>
     (\<forall>p secret validity t t'. t' div 1000 < t div 1000 + validity \<longrightarrow>
        jwt_verify L (jwt_sign L p secret validity t) secret t' = Inr p)"

definition hashPassword :: "'tok crypto \<Rightarrow> string \<Rightarrow> string \<Rightarrow> string" where
  "hashPassword L salt pw = bcrypt_hash L salt pw"

definition verifyPassword :: "'tok crypto \<Rightarrow> string \<Rightarrow> string \<Rightarrow> bool" where
  "verifyPassword L pw hashedPassword = bcrypt_compare L pw hashedPassword"

text \<open>\<^verbatim>\<open>expiresIn: '7d'\<close> is seven days in seconds.\<close>

definition expiresIn :: int where
  "expiresIn = 7 * 24 * 60 * 60"

definition generateToken :: "'tok crypto \<Rightarrow> string \<Rightarrow> timestamp \<Rightarrow> JWTPayload \<Rightarrow> 'tok" where
  "generateToken L jwtSecret now payload = jwt_sign L payload jwtSecret expiresIn now"

text \<open>
  The result is on the right of the sum even when verification fails: the
  \<^verbatim>\<open>catch\<close> clause turns every exception into \<^verbatim>\<open>null\<close>.
\<close>

definition verifyToken :: "'tok crypto \<Rightarrow> string \<Rightarrow> timestamp \<Rightarrow> 'tok \<Rightarrow> error + JWTPayload option" where
  "verifyToken L jwtSecret now token =
     try_catch (map_sum (\<lambda>e. e) Some (jwt_verify L token jwtSecret now)) (\<lambda>e. Inr None)"

definition withoutPassword :: "User \<Rightarrow> UserWithoutPassword" where
  "withoutPassword user =
     \<lparr>pub_username = username user, pub_email = email user,
      pub_id = user_id user, pub_createdAt = user_createdAt user\<rparr>"

definition register ::
  "'tok crypto \<Rightarrow> string \<Rightarrow> string \<Rightarrow> string \<Rightarrow> timestamp \<Rightarrow> InsertUser \<Rightarrow> MemStorage
     \<Rightarrow> (error + UserWithoutPassword \<times> 'tok) \<times> MemStorage" where
  "register L jwtSecret salt newId now userData s =
     (case getUserByEmail s (email userData) of
        Some existingUser \<Rightarrow> (Inl (Error ''User with this email already exists''), s)
      | None \<Rightarrow>
         (case getUserByUsername s (username userData) of
            Some existingUsername \<Rightarrow> (Inl (Error ''Username already taken''), s)
          | None \<Rightarrow>
             (let hashedPassword = hashPassword L salt (password userData);
                  (user, s') = createUser newId now (userData\<lparr>password := hashedPassword\<rparr>) s;
                  token = generateToken L jwtSecret now
                            \<lparr>userId = user_id user, payload_username = username user\<rparr>
              in (Inr (withoutPassword user, token), s'))))"

definition login ::
  "'tok crypto \<Rightarrow> string \<Rightarrow> timestamp \<Rightarrow> string \<Rightarrow> string \<Rightarrow> MemStorage
     \<Rightarrow> (error + UserWithoutPassword \<times> 'tok) \<times> MemStorage" where
  "login L jwtSecret now name pw s =
     (let user = (case getUserByUsername s name of
                    None \<Rightarrow> getUserByEmail s name
                  | Some u \<Rightarrow> Some u)
      in case user of
           None \<Rightarrow> (Inl (Error ''Invalid credentials''), s)
         | Some u \<Rightarrow>
            (if \<not> verifyPassword L pw (password u)
             then (Inl (Error ''Invalid credentials''), s)
             else (let token = generateToken L jwtSecret now
                                 \<lparr>userId = user_id u, payload_username = username u\<rparr>
                   in (Inr (withoutPassword u, token), s))))"

section \<open>MemStorage: articles, likes, bookmarks, study resources\<close>

subsection \<open>Article operations\<close>

definition getArticles ::
  "MemStorage \<Rightarrow> string option \<Rightarrow> int option \<Rightarrow> int option \<Rightarrow> Article list" where
  "getArticles s cat limit_arg offset_arg =
     (let limit = (case limit_arg of None \<Rightarrow> 20 | Some l \<Rightarrow> l);
          offset = (case offset_arg of None \<Rightarrow> 0 | Some off \<Rightarrow> off);
          articles = Map_values (mem_articles s);
          filtered = (if truthy cat \<and> cat \<noteq> Some ''all''
                      then filter (\<lambda>article. Some (category article) = cat) articles
                      else articles)
      in slice (sort_js (\<lambda>a b. publishedAt b - publishedAt a) filtered) offset (offset + limit))"

definition getArticleById :: "MemStorage \<Rightarrow> string \<Rightarrow> Article option" where
  "getArticleById s ident = Map_get (mem_articles s) ident"

definition createArticle ::
  "string \<Rightarrow> timestamp \<Rightarrow> InsertArticle \<Rightarrow> MemStorage \<Rightarrow> Article \<times> MemStorage" where
  "createArticle newId now insertArticle s =
     (let article = \<lparr>title = title insertArticle,
                     description = or_null (description insertArticle),
                     content = or_null (content insertArticle),
                     url = url insertArticle,
                     imageUrl = or_null (imageUrl insertArticle),
                     category = category insertArticle,
                     source = source insertArticle,
                     publishedAt = publishedAt insertArticle,
                     article_id = newId, likes = 0, article_createdAt = now\<rparr>
      in (article, s\<lparr>mem_articles := Map_set (mem_articles s) newId article\<rparr>))"

definition updateArticleLikes :: "MemStorage \<Rightarrow> string \<Rightarrow> int \<Rightarrow> MemStorage" where
  "updateArticleLikes s ident n =
     (case Map_get (mem_articles s) ident of
        Some article \<Rightarrow> s\<lparr>mem_articles := Map_set (mem_articles s) ident (article\<lparr>likes := n\<rparr>)\<rparr>
      | None \<Rightarrow> s)"

subsection \<open>Like operations\<close>

definition getLikeByUserAndArticle :: "MemStorage \<Rightarrow> string \<Rightarrow> string \<Rightarrow> Like option" where
  "getLikeByUserAndArticle s uid aid =
     find (\<lambda>like. like_userId like = uid \<and> like_articleId like = aid) (Map_values (mem_likes s))"

definition createLike ::
  "string \<Rightarrow> timestamp \<Rightarrow> string \<Rightarrow> string \<Rightarrow> MemStorage \<Rightarrow> Like \<times> MemStorage" where
  "createLike newId now uid aid s =
     (let like = \<lparr>like_id = newId, like_userId = uid, like_articleId = aid, like_createdAt = now\<rparr>
      in (like, s\<lparr>mem_likes := Map_set (mem_likes s) newId like\<rparr>))"

definition deleteLike :: "MemStorage \<Rightarrow> string \<Rightarrow> string \<Rightarrow> MemStorage" where
  "deleteLike s uid aid =
     (case find (\<lambda>like. like_userId like = uid \<and> like_articleId like = aid) (Map_values (mem_likes s)) of
        Some like \<Rightarrow> s\<lparr>mem_likes := Map_delete (mem_likes s) (like_id like)\<rparr>
      | None \<Rightarrow> s)"

subsection \<open>Bookmark operations\<close>

definition getBookmarksByUserId :: "MemStorage \<Rightarrow> string \<Rightarrow> Bookmark list" where
  "getBookmarksByUserId s uid =
     sort_js (\<lambda>a b. bookmark_createdAt b - bookmark_createdAt a)
       (filter (\<lambda>bookmark. bookmark_userId bookmark = uid) (Map_values (mem_bookmarks s)))"

definition createBookmark ::
  "string \<Rightarrow> timestamp \<Rightarrow> InsertBookmark \<Rightarrow> MemStorage \<Rightarrow> Bookmark \<times> MemStorage" where
  "createBookmark newId now insertBookmark s =
     (let bookmark = \<lparr>bookmark_userId = bookmark_userId insertBookmark,
                      resourceType = resourceType insertBookmark,
                      resourceId = resourceId insertBookmark,
                      bookmark_title = bookmark_title insertBookmark,
                      bookmark_id = newId, bookmark_createdAt = now\<rparr>
      in (bookmark, s\<lparr>mem_bookmarks := Map_set (mem_bookmarks s) newId bookmark\<rparr>))"

definition deleteBookmark :: "MemStorage \<Rightarrow> string \<Rightarrow> string \<Rightarrow> string \<Rightarrow> MemStorage" where
  "deleteBookmark s uid rtype rid =
     (case find (\<lambda>b. bookmark_userId b = uid \<and> resourceType b = rtype \<and> resourceId b = rid)
             (Map_values (mem_bookmarks s)) of
        Some bookmark \<Rightarrow> s\<lparr>mem_bookmarks := Map_delete (mem_bookmarks s) (bookmark_id bookmark)\<rparr>
      | None \<Rightarrow> s)"

subsection \<open>Study resources\<close>

text \<open>
  \<^verbatim>\<open>localeCompare\<close> depends on the host's collation, so the listing takes the
  comparison as an argument.
\<close>

definition getTnpscResources ::
  "(string \<Rightarrow> string \<Rightarrow> int) \<Rightarrow> MemStorage \<Rightarrow> string option \<Rightarrow> string option \<Rightarrow> string option
     \<Rightarrow> TnpscResource list" where
  "getTnpscResources localeCompare s cat subj stage =
     (let resources = Map_values (mem_tnpscResources s);
          resources = (if truthy cat
                       then filter (\<lambda>r. Some (resource_category r) = cat) resources else resources);
          resources = (if truthy subj
                       then filter (\<lambda>r. Some (subject r) = subj) resources else resources);
          resources = (if truthy stage
                       then filter (\<lambda>r. Some (examStage r) = stage) resources else resources)
      in sort_js (\<lambda>a b. localeCompare (resource_title a) (resource_title b)) resources)"

definition createTnpscResource ::
  "string \<Rightarrow> timestamp \<Rightarrow> InsertTnpscResource \<Rightarrow> MemStorage \<Rightarrow> TnpscResource \<times> MemStorage" where
  "createTnpscResource newId now insertResource s =
     (let resource = \<lparr>resource_title = resource_title insertResource,
                      resource_category = resource_category insertResource,
                      subject = subject insertResource,
                      examStage = examStage insertResource,
                      fileUrl = or_null (fileUrl insertResource),
                      resource_description = or_null (resource_description insertResource),
                      resource_id = newId, resource_createdAt = now\<rparr>
      in (resource, s\<lparr>mem_tnpscResources := Map_set (mem_tnpscResources s) newId resource\<rparr>))"

text \<open>
  The constructor seeds three resources; each draws its own identifier and reads
  the clock on its own.
\<close>

definition tnpscData ::
  "string \<times> timestamp \<Rightarrow> string \<times> timestamp \<Rightarrow> string \<times> timestamp \<Rightarrow> TnpscResource list" where
  "tnpscData r1 r2 r3 =
     [\<lparr>resource_title = ''Tamil Nadu History'', resource_category = ''book'',
       subject = ''History'', examStage = ''prelims'',
       fileUrl = Some ''/books/tamil-history.pdf'',
       resource_description = Some ''Comprehensive guide to Tamil Nadu history for TNPSC prelims'',
       resource_id = fst r1, resource_createdAt = snd r1\<rparr>,
      \<lparr>resource_title = ''Indian Polity'', resource_category = ''book'',
       subject = ''Polity'', examStage = ''mains'',
       fileUrl = Some ''/books/indian-polity.pdf'',
       resource_description = Some ''Complete coverage of Indian polity for TNPSC mains'',
       resource_id = fst r2, resource_createdAt = snd r2\<rparr>,
      \<lparr>resource_title = ''Geography Notes'', resource_category = ''notes'',
       subject = ''Geography'', examStage = ''prelims'',
       fileUrl = Some ''/books/geography-notes.pdf'',
       resource_description = Some ''Important geography notes for TNPSC preparation'',
       resource_id = fst r3, resource_createdAt = snd r3\<rparr>]"

definition initializeSampleData ::
  "string \<times> timestamp \<Rightarrow> string \<times> timestamp \<Rightarrow> string \<times> timestamp \<Rightarrow> MemStorage \<Rightarrow> MemStorage" where
  "initializeSampleData r1 r2 r3 s =
     fold (\<lambda>resource st. st\<lparr>mem_tnpscResources :=
                                Map_set (mem_tnpscResources st) (resource_id resource) resource\<rparr>)
       (tnpscData r1 r2 r3) s"

definition new_MemStorage ::
  "string \<times> timestamp \<Rightarrow> string \<times> timestamp \<Rightarrow> string \<times> timestamp \<Rightarrow> MemStorage" where
  "new_MemStorage r1 r2 r3 =
     initializeSampleData r1 r2 r3
       \<lparr>mem_users = [], mem_articles = [], mem_likes = [], mem_bookmarks = [],
        mem_tnpscResources = []\<rparr>"

section \<open>The like route\<close>

text \<open>
  \<^verbatim>\<open>POST /api/articles/:id/like\<close> after \<open>authenticateToken\<close> has put the token's
  payload into the request: \<open>uid\<close> is \<^verbatim>\<open>req.user.userId\<close>.
\<close>

datatype like_response =
    Status404 string
  | LikeJson bool int

definition like_route ::
  "string \<Rightarrow> timestamp \<Rightarrow> string \<Rightarrow> string \<Rightarrow> MemStorage \<Rightarrow> like_response \<times> MemStorage" where
  "like_route newId now uid ident s =
     (let existingLike = getLikeByUserAndArticle s uid ident;
          article = getArticleById s ident
      in case article of
           None \<Rightarrow> (Status404 ''Article not found'', s)
         | Some a \<Rightarrow>
            (case existingLike of
               Some l \<Rightarrow>
                 (let s1 = deleteLike s uid ident;
                      newLikes = max 0 (or_zero (likes a) - 1);
                      s2 = updateArticleLikes s1 ident newLikes
                  in (LikeJson False newLikes, s2))
             | None \<Rightarrow>
                 (let (like, s1) = createLike newId now uid ident s;
                      newLikes = or_zero (likes a) + 1;
                      s2 = updateArticleLikes s1 ident newLikes
                  in (LikeJson True newLikes, s2))))"

section \<open>DatabaseStorage\<close>

text \<open>
  The relational variant builds a query and hands it to the database. A query is
  the data the builder calls put together: the column of \<^verbatim>\<open>orderBy(desc(...))\<close>,
  the \<^verbatim>\<open>eq(column, value)\<close> conditions joined by \<^verbatim>\<open>and\<close>, and the optional
  \<^verbatim>\<open>limit\<close> and \<^verbatim>\<open>offset\<close>.
\<close>

record 'r select_query =
  q_orderBy_desc :: "'r \<Rightarrow> timestamp"
  q_where :: "(('r \<Rightarrow> string) \<times> string) list"
  q_limit :: "int option"
  q_offset :: "int option"

text \<open>
  The database is outside the repository. \<open>run_select\<close> is the reading of a
  \<^verbatim>\<open>SELECT\<close> that the statements below rely on: the rows meeting every condition,
  by descending key, then \<^verbatim>\<open>OFFSET\<close> and \<^verbatim>\<open>LIMIT\<close>; a negative \<^verbatim>\<open>LIMIT\<close> or
  \<^verbatim>\<open>OFFSET\<close> is rejected. SQL leaves the order of rows with equal keys open; here
  they come in table order.
\<close>

definition run_select :: "'r select_query \<Rightarrow> 'r list \<Rightarrow> error + 'r list" where
  "run_select q rows =
     (let matching = filter (\<lambda>r. list_all (\<lambda>c. fst c r = snd c) (q_where q)) rows;
          ordered = sort_js (\<lambda>a b. q_orderBy_desc q b - q_orderBy_desc q a) matching
      in case q_offset q of
           Some off \<Rightarrow>
             (if off < 0 then Inl (Error ''OFFSET must not be negative'')
              else (case q_limit q of
                      Some l \<Rightarrow> (if l < 0 then Inl (Error ''LIMIT must not be negative'')
                                 else Inr (take (nat l) (drop (nat off) ordered)))
                    | None \<Rightarrow> Inr (drop (nat off) ordered)))
         | None \<Rightarrow>
             (case q_limit q of
                Some l \<Rightarrow> (if l < 0 then Inl (Error ''LIMIT must not be negative'')
                           else Inr (take (nat l) ordered))
              | None \<Rightarrow> Inr ordered))"

record DatabaseStorage =
  db_articles :: "Article list"
  db_bookmarks :: "Bookmark list"
  db_tnpscResources :: "TnpscResource list"

definition getArticles_query ::
  "string option \<Rightarrow> int option \<Rightarrow> int option \<Rightarrow> Article select_query" where
  "getArticles_query cat limit_arg offset_arg =
     (let limit = (case limit_arg of None \<Rightarrow> 20 | Some l \<Rightarrow> l);
          offset = (case offset_arg of None \<Rightarrow> 0 | Some off \<Rightarrow> off);
          query = \<lparr>q_orderBy_desc = publishedAt, q_where = [], q_limit = None, q_offset = None\<rparr>;
          query = (if truthy cat \<and> cat \<noteq> Some ''all''
                   then query\<lparr>q_where := [(category, case cat of Some c \<Rightarrow> c | None \<Rightarrow> [])]\<rparr>
                   else query)
      in query\<lparr>q_limit := Some limit, q_offset := Some offset\<rparr>)"

definition DatabaseStorage_getArticles ::
  "DatabaseStorage \<Rightarrow> string option \<Rightarrow> int option \<Rightarrow> int option \<Rightarrow> error + Article list" where
  "DatabaseStorage_getArticles db cat limit_arg offset_arg =
     run_select (getArticles_query cat limit_arg offset_arg) (db_articles db)"

definition supplied_eq :: "('r \<Rightarrow> string) \<Rightarrow> string option \<Rightarrow> (('r \<Rightarrow> string) \<times> string) list" where
  "supplied_eq column x = (case x of None \<Rightarrow> [] | Some v \<Rightarrow> if v = [] then [] else [(column, v)])"

definition getTnpscResources_query ::
  "string option \<Rightarrow> string option \<Rightarrow> string option \<Rightarrow> TnpscResource select_query" where
  "getTnpscResources_query cat subj stage =
     (let query = \<lparr>q_orderBy_desc = resource_createdAt, q_where = [], q_limit = None, q_offset = None\<rparr>;
          conditions = supplied_eq resource_category cat @ supplied_eq subject subj
                         @ supplied_eq examStage stage
      in if length conditions > 0 then query\<lparr>q_where := conditions\<rparr> else query)"

definition DatabaseStorage_getTnpscResources ::
  "DatabaseStorage \<Rightarrow> string option \<Rightarrow> string option \<Rightarrow> string option \<Rightarrow> error + TnpscResource list" where
  "DatabaseStorage_getTnpscResources db cat subj stage =
     run_select (getTnpscResources_query cat subj stage) (db_tnpscResources db)"

definition DatabaseStorage_createTnpscResource ::
  "string \<Rightarrow> timestamp \<Rightarrow> InsertTnpscResource \<Rightarrow> DatabaseStorage \<Rightarrow> TnpscResource \<times> DatabaseStorage" where
  "DatabaseStorage_createTnpscResource newId now insertResource db =
     (let resource = \<lparr>resource_title = resource_title insertResource,
                      resource_category = resource_category insertResource,
                      subject = subject insertResource,
                      examStage = examStage insertResource,
                      fileUrl = fileUrl insertResource,
                      resource_description = resource_description insertResource,
                      resource_id = newId, resource_createdAt = now\<rparr>
      in (resource, db\<lparr>db_tnpscResources := db_tnpscResources db @ [resource]\<rparr>))"

definition DatabaseStorage_getBookmarksByUserId ::
  "DatabaseStorage \<Rightarrow> string \<Rightarrow> error + Bookmark list" where
  "DatabaseStorage_getBookmarksByUserId db uid =
     run_select \<lparr>q_orderBy_desc = bookmark_createdAt, q_where = [(bookmark_userId, uid)],
                  q_limit = None, q_offset = None\<rparr> (db_bookmarks db)"

definition DatabaseStorage_createBookmark ::
  "string \<Rightarrow> timestamp \<Rightarrow> InsertBookmark \<Rightarrow> DatabaseStorage \<Rightarrow> Bookmark \<times> DatabaseStorage" where
  "DatabaseStorage_createBookmark newId now insertBookmark db =
     (let bookmark = \<lparr>bookmark_userId = bookmark_userId insertBookmark,
                      resourceType = resourceType insertBookmark,
                      resourceId = resourceId insertBookmark,
                      bookmark_title = bookmark_title insertBookmark,
                      bookmark_id = newId, bookmark_createdAt = now\<rparr>
      in (bookmark, db\<lparr>db_bookmarks := db_bookmarks db @ [bookmark]\<rparr>))"

text \<open>\<^verbatim>\<open>DELETE ... WHERE\<close> removes every row that meets the three conditions.\<close>

definition DatabaseStorage_deleteBookmark ::
  "DatabaseStorage \<Rightarrow> string \<Rightarrow> string \<Rightarrow> string \<Rightarrow> DatabaseStorage" where
  "DatabaseStorage_deleteBookmark db uid rtype rid =
     db\<lparr>db_bookmarks :=
          filter (\<lambda>b. \<not> (bookmark_userId b = uid \<and> resourceType b = rtype \<and> resourceId b = rid))
            (db_bookmarks db)\<rparr>"

section \<open>AIService.detectFakeNews\<close>

datatype credibility = high | medium | low

record FakeNewsResult =
  isReal :: bool
  confidence :: real
  explanation :: string
  sourceCredibility :: credibility

text \<open>
  The request sent to the model, and what \<^verbatim>\<open>JSON.parse\<close> makes of its answer:
  each of the three fields may be missing. The prompt is the source's text with its
  line breaks and double quotes left out.
\<close>

record ChatRequest =
  request_model :: string
  system_content :: string
  user_content :: string
  json_object :: bool

record ParsedReply =
  reply_isReal :: "bool option"
  reply_confidence :: "real option"
  reply_explanation :: "string option"

definition trustedSources :: "string list" where
  "trustedSources =
     [''thanthi'', ''polimer'', ''suntv'', ''times of india'', ''the hindu'', ''indian express'']"

definition prompt_header :: string where
  "prompt_header =
     ''Analyze the following news text for authenticity and potential misinformation. Consider factors like: '' @
     ''- Language patterns that suggest bias or sensationalism '' @
     ''- Factual consistency and logical flow '' @
     ''- Claims that seem extraordinary without evidence '' @
     ''- Writing style and professionalism '' @
     ''Respond with JSON in this format: { isReal: boolean, confidence: number (0-1), explanation: string } '' @
     ''Text to analyze: ''"

definition fakeNews_request :: "string \<Rightarrow> ChatRequest" where
  "fakeNews_request text =
     \<lparr>request_model = ''deepseek/deepseek-r1'',
      system_content = ''You are an expert fact-checker and misinformation detection specialist. Analyze news content for authenticity.'',
      user_content = prompt_header @ text,
      json_object = True\<rparr>"

text \<open>
  \<open>toLowerCase\<close> is the host's lower-casing, \<open>create\<close> is the call to the model
  (an exception, or the content of the first choice when there is one) and
  \<open>JSON_parse\<close> is \<^verbatim>\<open>JSON.parse\<close>. The second component of the result lists the
  requests that were sent to the model.
\<close>

definition detectFakeNews ::
  "(string \<Rightarrow> string) \<Rightarrow> (ChatRequest \<Rightarrow> error + string option) \<Rightarrow> (string \<Rightarrow> error + ParsedReply)
     \<Rightarrow> string \<Rightarrow> string option \<Rightarrow> (error + FakeNewsResult) \<times> ChatRequest list" where
  "detectFakeNews toLowerCase create JSON_parse text src =
     (let credibility =
            (if truthy src \<and>
                list_ex (\<lambda>trusted. includes_js (toLowerCase (case src of Some v \<Rightarrow> v | None \<Rightarrow> [])) trusted)
                  trustedSources
             then high else medium)
      in if credibility = high
         then (Inr \<lparr>isReal = True, confidence = 95 / 100,
                    explanation = ''This news comes from a trusted and verified source.'',
                    sourceCredibility = high\<rparr>, [])
         else
           (let request = fakeNews_request text;
                body =
                  (case create request of
                     Inl e \<Rightarrow> Inl e
                   | Inr message_content \<Rightarrow>
                      (case JSON_parse (case or_null message_content of Some c \<Rightarrow> c | None \<Rightarrow> ''{}'') of
                         Inl e \<Rightarrow> Inl e
                       | Inr result \<Rightarrow>
                          Inr \<lparr>isReal = (case reply_isReal result of Some b \<Rightarrow> b | None \<Rightarrow> False),
                               confidence =
                                 max 0 (min 1 (case reply_confidence result of
                                                 Some c \<Rightarrow> if c = 0 then 5 / 10 else c
                                               | None \<Rightarrow> 5 / 10)),
                               explanation =
                                 (case or_null (reply_explanation result) of
                                    Some e \<Rightarrow> e | None \<Rightarrow> ''Analysis completed''),
                               sourceCredibility = credibility\<rparr>))
            in (try_catch body (\<lambda>e. Inl (Error ''Failed to analyze news authenticity'')), [request])))"

section \<open>The storage contract\<close>

text \<open>The like counter of a stored article is never negative.\<close>

definition likes_nonneg :: "MemStorage \<Rightarrow> bool" where
  "likes_nonneg s = list_all (\<lambda>a. 0 \<le> likes a) (Map_values (mem_articles s))"

text \<open>
  The contract's listing of study resources, after the specification: the exact-match
  conjunction of the filters that are supplied, newest creation first.
\<close>

definition getTnpscResources_spec ::
  "TnpscResource list \<Rightarrow> string option \<Rightarrow> string option \<Rightarrow> string option \<Rightarrow> TnpscResource list" where
  "getTnpscResources_spec rows cat subj stage =
     sort_js (\<lambda>a b. resource_createdAt b - resource_createdAt a)
       (filter (\<lambda>r. (case cat of None \<Rightarrow> True | Some v \<Rightarrow> resource_category r = v) \<and>
                    (case subj of None \<Rightarrow> True | Some v \<Rightarrow> subject r = v) \<and>
                    (case stage of None \<Rightarrow> True | Some v \<Rightarrow> examStage r = v)) rows)"

section \<open>Sample data\<close>

text \<open>
  A small implementation of the four library calls that meets \<open>crypto_ok\<close>: the
  hash is the password followed by the salt, and a token is the payload with the
  secret and the second at which it expires.
\<close>

definition demo_crypto :: "(JWTPayload \<times> string \<times> int) crypto" where
  "demo_crypto =
     \<lparr>bcrypt_hash = (\<lambda>salt pw. pw @ ''$'' @ salt),
      bcrypt_compare = (\<lambda>pw h. take (length pw + 1) h = pw @ ''$''),
      jwt_sign = (\<lambda>p secret validity t. (p, secret, t div 1000 + validity)),
      jwt_verify = (\<lambda>token secret t.
         case token of (p, signed, expiry) \<Rightarrow>
           if signed \<noteq> secret then Inl (JsonWebTokenError ''invalid signature'')
           else if expiry \<le> t div 1000 then Inl TokenExpiredError
           else Inr p)\<rparr>"

text \<open>The store right after start-up, and the registration of the specification's example.\<close>

definition sample_store :: MemStorage where
  "sample_store = new_MemStorage (''r1'', 1000) (''r2'', 1000) (''r3'', 1000)"

definition alice :: InsertUser where
  "alice = \<lparr>username = ''a'', email = ''a@x.com'', password = ''p''\<rparr>"

definition alice_store :: MemStorage where
  "alice_store = snd (register demo_crypto ''secret'' ''salt'' ''u1'' 2000 alice sample_store)"

text \<open>An earlier user whose user name is the address Alice registers with.\<close>

definition squatter :: InsertUser where
  "squatter = \<lparr>username = ''a@x.com'', email = ''b@x.com'', password = ''q''\<rparr>"

definition squatter_store :: MemStorage where
  "squatter_store = snd (register demo_crypto ''secret'' ''salt0'' ''u0'' 1500 squatter sample_store)"

text \<open>Two articles, the older one on business and the newer one on sports.\<close>

definition business_article :: InsertArticle where
  "business_article =
     \<lparr>title = ''Budget day'', description = Some ''The budget in brief'', content = None,
      url = ''https://news.example/budget'', imageUrl = None, category = ''business'',
      source = ''The Hindu'', publishedAt = 5000\<rparr>"

definition sports_article :: InsertArticle where
  "sports_article =
     \<lparr>title = ''Cup final'', description = None, content = None,
      url = ''https://news.example/final'', imageUrl = None, category = ''sports'',
      source = ''Thanthi'', publishedAt = 7000\<rparr>"

definition news_store :: MemStorage where
  "news_store =
     snd (createArticle ''a2'' 8000 sports_article
            (snd (createArticle ''a1'' 6000 business_article sample_store)))"

definition news_db :: DatabaseStorage where
  "news_db = \<lparr>db_articles = Map_values (mem_articles news_store), db_bookmarks = [],
              db_tnpscResources = []\<rparr>"

text \<open>A study resource added one second after start-up, in both stores.\<close>

definition zoology :: InsertTnpscResource where
  "zoology =
     \<lparr>resource_title = ''Zoology Notes'', resource_category = ''notes'', subject = ''Science'',
      examStage = ''prelims'', fileUrl = None, resource_description = None\<rparr>"

definition resource_store :: MemStorage where
  "resource_store = snd (createTnpscResource ''r4'' 2000 zoology sample_store)"

definition resource_db :: DatabaseStorage where
  "resource_db =
     snd (DatabaseStorage_createTnpscResource ''r4'' 2000 zoology
            \<lparr>db_articles = [], db_bookmarks = [],
             db_tnpscResources = Map_values (mem_tnpscResources sample_store)\<rparr>)"

text \<open>
  Code-unit order, with which every collation agrees on titles that differ in their
  first letter and start with a capital.
\<close>

primrec compare_code_units :: "string \<Rightarrow> string \<Rightarrow> int" where
  "compare_code_units [] t = (if t = [] then 0 else - 1)"
| "compare_code_units (c # cs) t =
     (case t of
        [] \<Rightarrow> 1
      | d # ds \<Rightarrow>
         if (of_char c :: nat) < of_char d then - 1
         else if (of_char d :: nat) < of_char c then 1
         else compare_code_units cs ds)"

text \<open>A user who bookmarks the same resource twice.\<close>

definition tamil_bookmark :: InsertBookmark where
  "tamil_bookmark =
     \<lparr>bookmark_userId = ''u1'', resourceType = ''tnpsc_material'', resourceId = ''r1'',
      bookmark_title = ''Tamil Nadu History''\<rparr>"

definition bookmarked_store :: MemStorage where
  "bookmarked_store = snd (createBookmark ''b1'' 3000 tamil_bookmark sample_store)"

definition bookmarked_db :: DatabaseStorage where
  "bookmarked_db =
     snd (DatabaseStorage_createBookmark ''b1'' 3000 tamil_bookmark
            \<lparr>db_articles = [], db_bookmarks = [], db_tnpscResources = []\<rparr>)"

text \<open>Lower-casing of the unaccented Latin letters, and a model that is out of reach.\<close>

definition ascii_toLowerCase :: "string \<Rightarrow> string" where
  "ascii_toLowerCase s =
     map (\<lambda>c. case map_of (zip ''ABCDEFGHIJKLMNOPQRSTUVWXYZ'' ''abcdefghijklmnopqrstuvwxyz'') c of
                Some d \<Rightarrow> d | None \<Rightarrow> c) s"

definition offline_model :: "ChatRequest \<Rightarrow> error + string option" where
  "offline_model request = Inl (Error ''connect ECONNREFUSED'')"

definition strict_parse :: "string \<Rightarrow> error + ParsedReply" where
  "strict_parse reply =
     (if reply = ''{}''
      then Inr \<lparr>reply_isReal = None, reply_confidence = None, reply_explanation = None\<rparr>
      else Inl (Error ''Unexpected token''))"

section \<open>Facts about the built-ins\<close>

lemma sort_js_Nil: "sort_js cmp [] = []"
  by (simp add: sort_js_def)

lemma sort_js_Cons: "sort_js cmp (x # xs) = insert_sorted cmp x (sort_js cmp xs)"
  by (simp add: sort_js_def)

lemma set_insert_sorted: "set (insert_sorted cmp x ys) = insert x (set ys)"
  by (induction ys) auto

lemma set_sort_js: "set (sort_js cmp xs) = set xs"
  by (induction xs) (simp_all add: sort_js_Nil sort_js_Cons set_insert_sorted)

lemma sorted_insert_sorted:
  "sorted_wrt (\<lambda>a b. k b \<le> k a) ys \<Longrightarrow>
   sorted_wrt (\<lambda>a b. k b \<le> k a) (insert_sorted (\<lambda>a b. k b - k a) x ys)"
  for k :: "'a \<Rightarrow> int"
  by (induction ys) (auto simp: set_insert_sorted)

lemma sorted_sort_js:
  "sorted_wrt (\<lambda>a b. k b \<le> k a) (sort_js (\<lambda>a b. k b - k a) xs)"
  for k :: "'a \<Rightarrow> int"
  by (induction xs) (simp_all add: sort_js_Nil sort_js_Cons sorted_insert_sorted)

lemma length_insert_sorted: "length (insert_sorted cmp x ys) = Suc (length ys)"
  by (induction ys) auto

lemma length_sort_js: "length (sort_js cmp xs) = length xs"
  by (induction xs) (simp_all add: sort_js_Nil sort_js_Cons length_insert_sorted)

lemma slice_window:
  "0 \<le> off \<Longrightarrow> 0 \<le> l \<Longrightarrow> slice xs off (off + l) = take (nat l) (drop (nat off) xs)"
proof -
  assume o: "0 \<le> off" and l: "0 \<le> l"
  let ?len = "int (length xs)"
  show ?thesis
  proof (cases "off \<le> ?len")
    case True
    then have "nat (min (off + l) ?len - off) = min (nat l) (length xs - nat off)"
      using o l by (auto simp: min_def)
    moreover have "take (min (nat l) (length (drop (nat off) xs))) (drop (nat off) xs)
        = take (nat l) (drop (nat off) xs)"
      by (simp add: min_def)
    moreover have "min off ?len = off" using True by simp
    moreover have "\<not> off + l < 0" using o l by simp
    ultimately show ?thesis
      using o by (simp add: slice_def Let_def)
  next
    case False
    then show ?thesis using o l by (simp add: slice_def Let_def min_def)
  qed
qed

lemma set_slice: "set (slice xs a b) \<subseteq> set xs"
  unfolding slice_def Let_def
  by (meson set_take_subset set_drop_subset subset_trans)

lemma sorted_wrt_slice: "sorted_wrt P xs \<Longrightarrow> sorted_wrt P (slice xs a b)"
  unfolding slice_def Let_def
  by (intro sorted_wrt_take sorted_wrt_drop)

lemma slice_all: "length xs \<le> n \<Longrightarrow> slice xs 0 (0 + int n) = xs"
  by (simp add: slice_def Let_def min_def)

lemma map_of_Map_set:
  "map_of (Map_set m k v) k' = (if k' = k then Some v else map_of m k')"
  by (induction m) auto

lemma set_Map_set_subset: "set (Map_set m k v) \<subseteq> insert (k, v) (set m)"
  by (induction m) auto

lemma find_values_Map_set_new:
  "\<forall>x \<in> set (Map_values m). \<not> P x \<Longrightarrow> P v \<Longrightarrow> find P (Map_values (Map_set m k v)) = Some v"
  by (induction m) (auto simp: Map_values_def)

lemma find_values_Map_set_none:
  "\<forall>x \<in> set (Map_values m). \<not> P x \<Longrightarrow> \<not> P v \<Longrightarrow> find P (Map_values (Map_set m k v)) = None"
  by (induction m) (auto simp: Map_values_def find_None_iff)

lemma find_values_delete_set:
  assumes "\<forall>x \<in> set (Map_values m). \<not> P x"
  shows "find P (Map_values (Map_delete (Map_set m k v) k)) = None"
proof -
  have "set (Map_delete (Map_set m k v) k) \<subseteq> set m"
    using set_Map_set_subset [of m k v] by (auto simp: Map_delete_def)
  then show ?thesis
    using assms by (auto simp: find_None_iff Map_values_def)
qed


section \<open>Facts about the storage and the services\<close>

lemma getUserByUsername_None_iff:
  "getUserByUsername s name = None \<longleftrightarrow> (\<forall>u \<in> set (Map_values (mem_users s)). username u \<noteq> name)"
  by (auto simp: getUserByUsername_def find_None_iff)

lemma getUserByEmail_None_iff:
  "getUserByEmail s mail = None \<longleftrightarrow> (\<forall>u \<in> set (Map_values (mem_users s)). email u \<noteq> mail)"
  by (auto simp: getUserByEmail_def find_None_iff)

lemma verifyToken_eq:
  "verifyToken L sec now tok = Inr (case jwt_verify L tok sec now of Inl e \<Rightarrow> None | Inr p \<Rightarrow> Some p)"
  by (simp add: verifyToken_def try_catch_def split: sum.splits)

lemma register_ok:
  assumes "getUserByEmail s (email d) = None" "getUserByUsername s (username d) = None"
  shows "register L sec salt newId now d s =
     (Inr (\<lparr>pub_username = username d, pub_email = email d, pub_id = newId, pub_createdAt = now\<rparr>,
           generateToken L sec now \<lparr>userId = newId, payload_username = username d\<rparr>),
      s\<lparr>mem_users := Map_set (mem_users s) newId
          \<lparr>username = username d, email = email d, password = hashPassword L salt (password d),
           user_id = newId, user_createdAt = now\<rparr>\<rparr>)"
  using assms by (simp add: register_def createUser_def withoutPassword_def Let_def)

lemma getArticles_default_limit:
  "getArticles s cat None off = getArticles s cat (Some 20) off"
  by (simp add: getArticles_def)

lemma getArticles_filtered:
  assumes "c \<noteq> []" "c \<noteq> ''all''"
  shows "getArticles s (Some c) (Some l) (Some off) =
         slice (sort_js (\<lambda>a b. publishedAt b - publishedAt a)
                  (filter (\<lambda>a. category a = c) (Map_values (mem_articles s)))) off (off + l)"
  using assms by (simp add: getArticles_def truthy_def)

lemma getArticles_cases:
  "\<exists>l off. getArticles s cat lm offs = getArticles s cat (Some l) (Some off)"
proof -
  have "getArticles s cat lm offs =
        getArticles s cat (Some (case lm of None \<Rightarrow> 20 | Some l \<Rightarrow> l))
          (Some (case offs of None \<Rightarrow> 0 | Some off \<Rightarrow> off))"
    by (simp add: getArticles_def)
  then show ?thesis by blast
qed

lemma getArticles_category_mem:
  assumes c: "c \<noteq> []" "c \<noteq> ''all''"
  shows "(\<forall>a \<in> set (getArticles s (Some c) lm offs).
            category a = c \<and> a \<in> set (Map_values (mem_articles s))) \<and>
         sorted_wrt (\<lambda>a b. publishedAt b \<le> publishedAt a) (getArticles s (Some c) lm offs)"
proof -
  obtain l off where eq: "getArticles s (Some c) lm offs = getArticles s (Some c) (Some l) (Some off)"
    using getArticles_cases by blast
  let ?full = "sort_js (\<lambda>a b. publishedAt b - publishedAt a)
                  (filter (\<lambda>a. category a = c) (Map_values (mem_articles s)))"
  have g: "getArticles s (Some c) lm offs = slice ?full off (off + l)"
    by (simp only: eq getArticles_filtered [OF c])
  have "set (slice ?full off (off + l)) \<subseteq> set ?full" by (rule set_slice)
  then have 1: "\<forall>a \<in> set (slice ?full off (off + l)).
            category a = c \<and> a \<in> set (Map_values (mem_articles s))"
    by (auto simp: set_sort_js)
  have 2: "sorted_wrt (\<lambda>a b. publishedAt b \<le> publishedAt a) (slice ?full off (off + l))"
    by (rule sorted_wrt_slice) (rule sorted_sort_js)
  show ?thesis unfolding g using 1 2 by (rule conjI)
qed

lemma getArticles_full:
  assumes c: "c \<noteq> []" "c \<noteq> ''all''"
  shows "getArticles s (Some c) (Some (int (length (mem_articles s)))) (Some 0) =
         sort_js (\<lambda>a b. publishedAt b - publishedAt a)
                  (filter (\<lambda>a. category a = c) (Map_values (mem_articles s)))"
proof -
  let ?full = "sort_js (\<lambda>a b. publishedAt b - publishedAt a)
                  (filter (\<lambda>a. category a = c) (Map_values (mem_articles s)))"
  have "length ?full \<le> length (mem_articles s)"
    by (simp add: length_sort_js Map_values_def)
  then show ?thesis
    using getArticles_filtered [OF c, of s "int (length (mem_articles s))" 0]
      slice_all [of ?full "length (mem_articles s)"] by simp
qed

lemma getArticles_window:
  assumes c: "c \<noteq> []" "c \<noteq> ''all''" and "0 \<le> l" "0 \<le> off"
  shows "getArticles s (Some c) (Some l) (Some off) =
         take (nat l) (drop (nat off)
           (getArticles s (Some c) (Some (int (length (mem_articles s)))) (Some 0)))"
proof -
  have "getArticles s (Some c) (Some l) (Some off) =
        take (nat l) (drop (nat off) (sort_js (\<lambda>a b. publishedAt b - publishedAt a)
                  (filter (\<lambda>a. category a = c) (Map_values (mem_articles s)))))"
    using assms by (simp add: getArticles_filtered slice_window)
  then show ?thesis by (simp only: getArticles_full [OF c])
qed

lemma getArticles_full_set:
  assumes c: "c \<noteq> []" "c \<noteq> ''all''"
  shows "set (getArticles s (Some c) (Some (int (length (mem_articles s)))) (Some 0)) =
         {a \<in> set (Map_values (mem_articles s)). category a = c}"
  by (auto simp: getArticles_full [OF c] set_sort_js)

lemma db_getArticles_default_limit:
  "DatabaseStorage_getArticles db cat None off = DatabaseStorage_getArticles db cat (Some 20) off"
  by (simp add: DatabaseStorage_getArticles_def getArticles_query_def)

lemma db_getArticles_filtered:
  assumes "c \<noteq> []" "c \<noteq> ''all''" "0 \<le> l" "0 \<le> off"
  shows "DatabaseStorage_getArticles db (Some c) (Some l) (Some off) =
         Inr (take (nat l) (drop (nat off)
                (sort_js (\<lambda>a b. publishedAt b - publishedAt a)
                   (filter (\<lambda>a. category a = c) (db_articles db)))))"
  using assms
  by (simp add: DatabaseStorage_getArticles_def getArticles_query_def run_select_def truthy_def Let_def)

lemma db_getArticles_full:
  assumes c: "c \<noteq> []" "c \<noteq> ''all''"
  shows "DatabaseStorage_getArticles db (Some c) (Some (int (length (db_articles db)))) (Some 0) =
         Inr (sort_js (\<lambda>a b. publishedAt b - publishedAt a)
                   (filter (\<lambda>a. category a = c) (db_articles db)))"
proof -
  have "length (sort_js (\<lambda>a b. publishedAt b - publishedAt a)
                   (filter (\<lambda>a. category a = c) (db_articles db))) \<le> length (db_articles db)"
    by (simp add: length_sort_js)
  then show ?thesis
    using db_getArticles_filtered [OF c, of "int (length (db_articles db))" 0 db] by simp
qed

lemma getArticles_category_db:
  assumes c: "c \<noteq> []" "c \<noteq> ''all''" and lo: "0 \<le> l" "0 \<le> off"
  shows "\<exists>rows full.
           DatabaseStorage_getArticles db (Some c) (Some l) (Some off) = Inr rows \<and>
           DatabaseStorage_getArticles db (Some c) (Some (int (length (db_articles db)))) (Some 0)
             = Inr full \<and>
           rows = take (nat l) (drop (nat off) full) \<and>
           set full = {a \<in> set (db_articles db). category a = c} \<and>
           (\<forall>a \<in> set rows. category a = c) \<and>
           sorted_wrt (\<lambda>a b. publishedAt b \<le> publishedAt a) full \<and>
           sorted_wrt (\<lambda>a b. publishedAt b \<le> publishedAt a) rows"
proof -
  let ?full = "sort_js (\<lambda>a b. publishedAt b - publishedAt a)
                   (filter (\<lambda>a. category a = c) (db_articles db))"
  let ?rows = "take (nat l) (drop (nat off) ?full)"
  have s: "sorted_wrt (\<lambda>a b. publishedAt b \<le> publishedAt a) ?full" by (rule sorted_sort_js)
  have sr: "sorted_wrt (\<lambda>a b. publishedAt b \<le> publishedAt a) ?rows"
    by (intro sorted_wrt_take sorted_wrt_drop s)
  have f: "set ?full = {a \<in> set (db_articles db). category a = c}"
    by (auto simp: set_sort_js)
  have "set ?rows \<subseteq> set ?full"
    by (meson set_take_subset set_drop_subset subset_trans)
  then have r: "\<forall>a \<in> set ?rows. category a = c" using f by blast
  have "DatabaseStorage_getArticles db (Some c) (Some l) (Some off) = Inr ?rows \<and>
        DatabaseStorage_getArticles db (Some c) (Some (int (length (db_articles db)))) (Some 0)
          = Inr ?full \<and>
        ?rows = take (nat l) (drop (nat off) ?full) \<and>
        set ?full = {a \<in> set (db_articles db). category a = c} \<and>
        (\<forall>a \<in> set ?rows. category a = c) \<and>
        sorted_wrt (\<lambda>a b. publishedAt b \<le> publishedAt a) ?full \<and>
        sorted_wrt (\<lambda>a b. publishedAt b \<le> publishedAt a) ?rows"
    by (intro conjI db_getArticles_filtered [OF c lo] db_getArticles_full [OF c] refl f r s sr)
  then show ?thesis by blast
qed

lemma getArticles_all:
  "getArticles s (Some ''all'') lm off = getArticles s None lm off"
  by (simp add: getArticles_def truthy_def)

lemma getArticles_query_all:
  "getArticles_query (Some ''all'') lm off = getArticles_query None lm off"
  by (simp add: getArticles_query_def truthy_def)

lemma getArticleById_updateArticleLikes:
  "getArticleById s ident = Some a \<Longrightarrow>
   getArticleById (updateArticleLikes s ident n) ident = Some (a\<lparr>likes := n\<rparr>)"
  by (simp add: getArticleById_def updateArticleLikes_def Map_get_def map_of_Map_set)

lemma mem_likes_updateArticleLikes:
  "mem_likes (updateArticleLikes s ident n) = mem_likes s"
  by (simp add: updateArticleLikes_def split: option.splits)

lemma mem_articles_createLike:
  "mem_articles (snd (createLike k t uid aid s)) = mem_articles s"
  by (simp add: createLike_def Let_def)

lemma mem_articles_deleteLike:
  "mem_articles (deleteLike s uid aid) = mem_articles s"
  by (simp add: deleteLike_def split: option.splits)

lemma getLike_None_iff:
  "getLikeByUserAndArticle s uid aid = None \<longleftrightarrow>
   (\<forall>x \<in> set (Map_values (mem_likes s)). \<not> (like_userId x = uid \<and> like_articleId x = aid))"
  by (auto simp: getLikeByUserAndArticle_def find_None_iff)

lemma like_route_like:
  assumes a: "getArticleById s aid = Some a" and n: "getLikeByUserAndArticle s uid aid = None"
  shows "like_route k t uid aid s =
           (LikeJson True (likes a + 1),
            updateArticleLikes (snd (createLike k t uid aid s)) aid (likes a + 1))"
  using a n by (simp add: like_route_def or_zero_def createLike_def Let_def)

lemma like_route_unlike:
  assumes a: "getArticleById s aid = Some a" and n: "getLikeByUserAndArticle s uid aid = Some l"
  shows "like_route k t uid aid s =
           (LikeJson False (max 0 (likes a - 1)),
            updateArticleLikes (deleteLike s uid aid) aid (max 0 (likes a - 1)))"
  using a n by (simp add: like_route_def or_zero_def Let_def)

lemma createArticle_likes: "likes (fst (createArticle k t ins s)) = 0"
  by (simp add: createArticle_def Let_def)


lemma includes_js_Nil_trusted:
  "\<not> list_ex (\<lambda>trusted. includes_js [] trusted) trustedSources"
  by (simp add: trustedSources_def)

lemma like_route_count:
  assumes a: "getArticleById s aid = Some a" and nonneg: "0 \<le> likes a"
  shows "case like_route k t uid aid s of
           (LikeJson liked n, s') \<Rightarrow> 0 \<le> n \<and> map_option likes (getArticleById s' aid) = Some n
         | (Status404 msg, s') \<Rightarrow> False"
proof (cases "getLikeByUserAndArticle s uid aid")
  case None
  have "getArticleById (snd (createLike k t uid aid s)) aid = Some a"
    using a by (simp add: getArticleById_def mem_articles_createLike)
  then have "map_option likes (getArticleById
      (updateArticleLikes (snd (createLike k t uid aid s)) aid (likes a + 1)) aid) = Some (likes a + 1)"
    by (simp add: getArticleById_updateArticleLikes)
  then show ?thesis
    using like_route_like [OF a None, of k t] nonneg by simp
next
  case (Some l)
  have "getArticleById (deleteLike s uid aid) aid = Some a"
    using a by (simp add: getArticleById_def mem_articles_deleteLike)
  then have "map_option likes (getArticleById
      (updateArticleLikes (deleteLike s uid aid) aid (max 0 (likes a - 1))) aid)
        = Some (max 0 (likes a - 1))"
    by (simp add: getArticleById_updateArticleLikes)
  then show ?thesis
    using like_route_unlike [OF a Some, of k t] by simp
qed

lemma likes_nonneg_new: "likes_nonneg (new_MemStorage r1 r2 r3)"
  by (simp add: likes_nonneg_def new_MemStorage_def initializeSampleData_def tnpscData_def
      Map_values_def)

lemma list_all_values_Map_set:
  "list_all P (Map_values m) \<Longrightarrow> P v \<Longrightarrow> list_all P (Map_values (Map_set m k v))"
  by (induction m) (auto simp: Map_values_def)

lemma likes_nonneg_createArticle:
  "likes_nonneg s \<Longrightarrow> likes_nonneg (snd (createArticle k t ins s))"
  by (simp add: likes_nonneg_def createArticle_def Let_def list_all_values_Map_set)

lemma likes_nonneg_updateArticleLikes:
  "likes_nonneg s \<Longrightarrow> 0 \<le> n \<Longrightarrow> likes_nonneg (updateArticleLikes s aid n)"
  by (simp add: likes_nonneg_def updateArticleLikes_def list_all_values_Map_set split: option.splits)

lemma likes_nonneg_get:
  assumes "likes_nonneg s" "getArticleById s aid = Some a"
  shows "0 \<le> likes a"
proof -
  have "(aid, a) \<in> set (mem_articles s)"
    using assms(2) by (simp add: getArticleById_def Map_get_def map_of_SomeD)
  then have "a \<in> set (Map_values (mem_articles s))"
    by (force simp: Map_values_def)
  then show ?thesis
    using assms(1) by (simp add: likes_nonneg_def list_all_iff)
qed

lemma likes_nonneg_like_route:
  assumes "likes_nonneg s"
  shows "likes_nonneg (snd (like_route k t uid aid s))"
proof (cases "getArticleById s aid")
  case None
  then show ?thesis using assms by (simp add: like_route_def)
next
  case (Some a)
  have a0: "0 \<le> likes a" by (rule likes_nonneg_get [OF assms Some])
  show ?thesis
  proof (cases "getLikeByUserAndArticle s uid aid")
    case None
    have "likes_nonneg (snd (createLike k t uid aid s))"
      using assms by (simp add: likes_nonneg_def mem_articles_createLike)
    then show ?thesis
      using like_route_like [OF Some None, of k t] a0
      by (simp add: likes_nonneg_updateArticleLikes)
  next
    case (Some l)
    have "likes_nonneg (deleteLike s uid aid)"
      using assms by (simp add: likes_nonneg_def mem_articles_deleteLike)
    then show ?thesis
      using like_route_unlike [OF \<open>getArticleById s aid = Some a\<close> Some, of k t]
      by (simp add: likes_nonneg_updateArticleLikes)
  qed
qed

lemma db_getTnpscResources_spec:
  assumes "cat \<noteq> Some []" "subj \<noteq> Some []" "stage \<noteq> Some []"
  shows "DatabaseStorage_getTnpscResources db cat subj stage =
           Inr (getTnpscResources_spec (db_tnpscResources db) cat subj stage)"
  using assms
  by (cases cat; cases subj; cases stage)
     (simp_all add: DatabaseStorage_getTnpscResources_def getTnpscResources_query_def
        supplied_eq_def run_select_def getTnpscResources_spec_def Let_def)

lemma getTnpscResources_set:
  assumes "cat \<noteq> Some []" "subj \<noteq> Some []" "stage \<noteq> Some []"
  shows "set (getTnpscResources localeCompare s cat subj stage) =
           set (getTnpscResources_spec (Map_values (mem_tnpscResources s)) cat subj stage)"
  using assms
  by (cases cat; cases subj; cases stage)
     (auto simp: getTnpscResources_def getTnpscResources_spec_def truthy_def set_sort_js Let_def)

lemma getTnpscResources_spec_sorted:
  "sorted_wrt (\<lambda>a b. resource_createdAt b \<le> resource_createdAt a)
     (getTnpscResources_spec rows cat subj stage)"
  unfolding getTnpscResources_spec_def by (rule sorted_sort_js)

lemma db_deleteBookmark_none_left:
  "DatabaseStorage_getBookmarksByUserId (DatabaseStorage_deleteBookmark db uid rtype rid) uid
     = Inr rows \<Longrightarrow> b \<in> set rows \<Longrightarrow> \<not> (resourceType b = rtype \<and> resourceId b = rid)"
  by (auto simp: DatabaseStorage_getBookmarksByUserId_def DatabaseStorage_deleteBookmark_def
      run_select_def set_sort_js Let_def)

lemma deleteBookmark_after_create:
  assumes fresh: "\<forall>b \<in> set (Map_values (mem_bookmarks s)).
             \<not> (bookmark_userId b = bookmark_userId ins \<and> resourceType b = resourceType ins \<and>
                resourceId b = resourceId ins)"
    and b: "b \<in> set (getBookmarksByUserId
             (deleteBookmark (snd (createBookmark k t ins s))
                (bookmark_userId ins) (resourceType ins) (resourceId ins)) (bookmark_userId ins))"
  shows "\<not> (resourceType b = resourceType ins \<and> resourceId b = resourceId ins)"
proof -
  let ?P = "\<lambda>b. bookmark_userId b = bookmark_userId ins \<and> resourceType b = resourceType ins \<and>
                resourceId b = resourceId ins"
  let ?new = "\<lparr>bookmark_userId = bookmark_userId ins, resourceType = resourceType ins,
               resourceId = resourceId ins, bookmark_title = bookmark_title ins,
               bookmark_id = k, bookmark_createdAt = t\<rparr>"
  let ?c = "snd (createBookmark k t ins s)"
  have mc: "mem_bookmarks ?c = Map_set (mem_bookmarks s) k ?new"
    by (simp add: createBookmark_def Let_def)
  have found: "find ?P (Map_values (mem_bookmarks ?c)) = Some ?new"
    unfolding mc by (rule find_values_Map_set_new [OF fresh]) simp
  have md: "mem_bookmarks (deleteBookmark ?c (bookmark_userId ins) (resourceType ins) (resourceId ins))
              = Map_delete (Map_set (mem_bookmarks s) k ?new) k"
    using found by (simp add: deleteBookmark_def mc)
  have "find ?P (Map_values (Map_delete (Map_set (mem_bookmarks s) k ?new) k)) = None"
    by (rule find_values_delete_set [OF fresh])
  then have none: "\<forall>x \<in> set (Map_values (Map_delete (Map_set (mem_bookmarks s) k ?new) k)). \<not> ?P x"
    by (simp add: find_None_iff)
  have "b \<in> set (Map_values (Map_delete (Map_set (mem_bookmarks s) k ?new) k))"
    and "bookmark_userId b = bookmark_userId ins"
    using b by (simp_all add: getBookmarksByUserId_def md set_sort_js)
  then show ?thesis using none by blast
qed

section \<open>Facts about the sample data\<close>

lemma demo_crypto_ok: "crypto_ok demo_crypto"
  by (simp add: crypto_ok_def demo_crypto_def)

lemma sample_store_users: "mem_users sample_store = []"
  by (simp add: sample_store_def new_MemStorage_def initializeSampleData_def tnpscData_def)

lemma alice_store_users:
  "mem_users alice_store =
     [(''u1'', \<lparr>username = ''a'', email = ''a@x.com'', password = ''p$salt'',
               user_id = ''u1'', user_createdAt = 2000\<rparr>)]"
  by (simp add: alice_store_def register_def getUserByEmail_def getUserByUsername_def
      Map_values_def sample_store_users createUser_def hashPassword_def demo_crypto_def alice_def Let_def)

lemma squatter_store_users:
  "mem_users squatter_store =
     [(''u0'', \<lparr>username = ''a@x.com'', email = ''b@x.com'', password = ''q$salt0'',
               user_id = ''u0'', user_createdAt = 1500\<rparr>)]"
  by (simp add: squatter_store_def register_def getUserByEmail_def getUserByUsername_def
      Map_values_def sample_store_users createUser_def hashPassword_def demo_crypto_def squatter_def Let_def)

lemma ascii_lower_hindu: "ascii_toLowerCase ''The Hindu'' = ''the hindu''"
  by (simp add: ascii_toLowerCase_def)

lemma news_store_a1:
  "getArticleById news_store ''a1'' =
     Some \<lparr>title = ''Budget day'', description = Some ''The budget in brief'', content = None,
           url = ''https://news.example/budget'', imageUrl = None, category = ''business'',
           source = ''The Hindu'', publishedAt = 5000,
           article_id = ''a1'', likes = 0, article_createdAt = 6000\<rparr>"
  by (simp add: news_store_def createArticle_def getArticleById_def Map_get_def Let_def
      business_article_def sports_article_def or_null_def sample_store_def new_MemStorage_def
      initializeSampleData_def tnpscData_def)

lemma news_store_likes: "mem_likes news_store = []"
  by (simp add: news_store_def createArticle_def Let_def sample_store_def new_MemStorage_def
      initializeSampleData_def tnpscData_def)

section \<open>Registration, login and verification\<close>

text \<open>
  C1. A registration with a user name and an e-mail address that no stored user has
  succeeds and creates the user under the drawn identifier. A login right after it
  with the same password succeeds when it names the user by the user name, and
  when it names the user by the e-mail address provided no stored user has that
  address as a user name (login looks the name up among the user names first).
  Verifying the token of that login, before the seven days of its validity are
  over, yields the identifier and the user name of the registered user.
\<close>

theorem register_login_verify:
  assumes ok: "crypto_ok L"
    and e: "getUserByEmail s (email d) = None"
    and u: "getUserByUsername s (username d) = None"
    and name: "name = username d \<or> (name = email d \<and> getUserByUsername s (email d) = None)"
    and t: "t2 div 1000 < t1 div 1000 + expiresIn"
  shows "\<exists>pub tok s' pub' tok'.
           register L sec salt newId t0 d s = (Inr (pub, tok), s') \<and>
           pub_id pub = newId \<and> pub_username pub = username d \<and>
           login L sec t1 name (password d) s' = (Inr (pub', tok'), s') \<and>
           verifyToken L sec t2 tok' = Inr (Some \<lparr>userId = newId, payload_username = username d\<rparr>)"
proof -
  let ?user = "\<lparr>username = username d, email = email d, password = hashPassword L salt (password d),
           user_id = newId, user_createdAt = t0\<rparr>"
  let ?s' = "s\<lparr>mem_users := Map_set (mem_users s) newId ?user\<rparr>"
  have reg: "register L sec salt newId t0 d s =
     (Inr (\<lparr>pub_username = username d, pub_email = email d, pub_id = newId, pub_createdAt = t0\<rparr>,
           generateToken L sec t0 \<lparr>userId = newId, payload_username = username d\<rparr>), ?s')"
    using register_ok [OF e u] .
  have nu: "\<forall>x \<in> set (Map_values (mem_users s)). username x \<noteq> username d"
    using u by (simp add: getUserByUsername_None_iff)
  have ne: "\<forall>x \<in> set (Map_values (mem_users s)). email x \<noteq> email d"
    using e by (simp add: getUserByEmail_None_iff)
  have resolve: "(case getUserByUsername ?s' name of None \<Rightarrow> getUserByEmail ?s' name | Some u \<Rightarrow> Some u)
       = Some ?user"
  proof (cases "name = username d")
    case True
    then show ?thesis
      using find_values_Map_set_new [OF nu, of ?user newId]
      by (simp add: getUserByUsername_def)
  next
    case False
    with name have n: "name = email d" and nn: "getUserByUsername s (email d) = None" by auto
    have "\<forall>x \<in> set (Map_values (mem_users s)). username x \<noteq> email d"
      using nn by (simp add: getUserByUsername_None_iff)
    then have "getUserByUsername ?s' name = None"
      using False n find_values_Map_set_none [of "mem_users s" "\<lambda>x. username x = email d" ?user newId]
      by (simp add: getUserByUsername_def)
    moreover have "getUserByEmail ?s' name = Some ?user"
      using n find_values_Map_set_new [OF ne, of ?user newId]
      by (simp add: getUserByEmail_def)
    ultimately show ?thesis by simp
  qed
  have pw: "verifyPassword L (password d) (password ?user)"
    using ok by (simp add: crypto_ok_def verifyPassword_def hashPassword_def)
  have log: "login L sec t1 name (password d) ?s' =
     (Inr (withoutPassword ?user, generateToken L sec t1 \<lparr>userId = newId, payload_username = username d\<rparr>), ?s')"
    using resolve pw by (simp add: login_def Let_def)
  have ver: "verifyToken L sec t2 (generateToken L sec t1 \<lparr>userId = newId, payload_username = username d\<rparr>)
       = Inr (Some \<lparr>userId = newId, payload_username = username d\<rparr>)"
    using ok t by (simp add: verifyToken_eq generateToken_def crypto_ok_def)
  show ?thesis using reg log ver by simp
qed

text \<open>
  The specification's example, logging in with the e-mail address one second after
  the registration and verifying one second later.
\<close>

theorem register_login_verify_witness:
  "\<exists>pub tok s' pub' tok'.
     register demo_crypto ''secret'' ''salt'' ''u1'' 2000 alice sample_store = (Inr (pub, tok), s') \<and>
     pub_id pub = ''u1'' \<and> pub_username pub = ''a'' \<and>
     login demo_crypto ''secret'' 3000 ''a@x.com'' ''p'' s' = (Inr (pub', tok'), s') \<and>
     verifyToken demo_crypto ''secret'' 4000 tok' =
       Inr (Some \<lparr>userId = ''u1'', payload_username = ''a''\<rparr>)"
proof -
  have e: "getUserByEmail sample_store (email alice) = None"
    by (simp add: getUserByEmail_def Map_values_def sample_store_users)
  have u: "getUserByUsername sample_store (username alice) = None"
    by (simp add: getUserByUsername_def Map_values_def sample_store_users)
  have name: "''a@x.com'' = username alice \<or>
              (''a@x.com'' = email alice \<and> getUserByUsername sample_store (email alice) = None)"
    by (simp add: alice_def getUserByUsername_def Map_values_def sample_store_users)
  have t: "(4000::int) div 1000 < 3000 div 1000 + expiresIn"
    by (simp add: expiresIn_def)
  show ?thesis
    using register_login_verify [OF demo_crypto_ok e u name t, of "''secret''" "''salt''" "''u1''" 2000]
    by (simp add: alice_def)
qed

text \<open>
  As stated, the claim fails for the e-mail address: Alice's address is nobody's
  address and her user name is nobody's user name, yet the login with her address
  and her password is refused, because an earlier user has that address as a user
  name. And the token of a login verifies to null seven days later.
\<close>

theorem register_login_verify_email_counterexample:
  "getUserByEmail squatter_store (email alice) = None \<and>
   getUserByUsername squatter_store (username alice) = None \<and>
   fst (login demo_crypto ''secret'' 3000 (email alice) (password alice)
          (snd (register demo_crypto ''secret'' ''salt'' ''u1'' 2000 alice squatter_store)))
     = Inl (Error ''Invalid credentials'') \<and>
   verifyToken demo_crypto ''secret'' (3000 + 7 * 24 * 60 * 60 * 1000)
     (snd (projr (fst (login demo_crypto ''secret'' 3000 (username alice) (password alice)
                         alice_store))))
     = Inr None"
  by (simp add: getUserByEmail_def getUserByUsername_def Map_values_def squatter_store_users
      alice_store_users register_def login_def createUser_def hashPassword_def verifyPassword_def
      verifyToken_def try_catch_def generateToken_def expiresIn_def demo_crypto_def
      alice_def Let_def)

text \<open>
  C3. When the e-mail address or the user name already belongs to a stored user,
  registration fails with an error and the store is left as it was.
\<close>

theorem register_duplicate_fails:
  assumes "getUserByEmail s (email d) \<noteq> None \<or> getUserByUsername s (username d) \<noteq> None"
  shows "\<exists>msg. register L sec salt newId now d s = (Inl (Error msg), s)"
  using assms by (auto simp: register_def split: option.splits)

theorem register_duplicate_fails_witness:
  "\<exists>msg. register demo_crypto ''secret'' ''salt2'' ''u2'' 2500 alice alice_store
            = (Inl (Error msg), alice_store)"
proof -
  have "getUserByEmail alice_store (email alice) \<noteq> None"
    by (simp add: getUserByEmail_def Map_values_def alice_store_users alice_def)
  then show ?thesis
    using register_duplicate_fails [of alice_store alice] by blast
qed

text \<open>
  C5. A login that finds a stored user but is given a password that does not match
  that user's hash fails with the very error of a login whose name matches no
  stored user, and neither changes the store.
\<close>

theorem login_same_error:
  assumes "getUserByUsername s name = Some u \<or>
           (getUserByUsername s name = None \<and> getUserByEmail s name = Some u)"
    and "\<not> verifyPassword L pw (password u)"
    and "getUserByUsername s name' = None" and "getUserByEmail s name' = None"
  shows "login L sec now name pw s = (Inl (Error ''Invalid credentials''), s) \<and>
         login L sec now' name' pw' s = (Inl (Error ''Invalid credentials''), s)"
  using assms by (auto simp: login_def)

theorem login_same_error_witness:
  "login demo_crypto ''secret'' 3000 ''a'' ''wrong'' alice_store
     = (Inl (Error ''Invalid credentials''), alice_store) \<and>
   login demo_crypto ''secret'' 3500 ''nobody'' ''p'' alice_store
     = (Inl (Error ''Invalid credentials''), alice_store)"
proof -
  let ?u = "\<lparr>username = ''a'', email = ''a@x.com'', password = ''p$salt'',
             user_id = ''u1'', user_createdAt = 2000\<rparr>"
  have 1: "getUserByUsername alice_store ''a'' = Some ?u \<or>
           (getUserByUsername alice_store ''a'' = None \<and> getUserByEmail alice_store ''a'' = Some ?u)"
    by (simp add: getUserByUsername_def Map_values_def alice_store_users)
  have 2: "\<not> verifyPassword demo_crypto ''wrong'' (password ?u)"
    by (simp add: verifyPassword_def demo_crypto_def)
  have 3: "getUserByUsername alice_store ''nobody'' = None"
    by (simp add: getUserByUsername_def Map_values_def alice_store_users)
  have 4: "getUserByEmail alice_store ''nobody'' = None"
    by (simp add: getUserByEmail_def Map_values_def alice_store_users)
  show ?thesis
    using login_same_error [OF 1 2 3 4, of "''secret''" 3000 3500 "''p''"] .
qed

text \<open>
  C6. Whatever the token, verification does not throw: it returns the payload when
  the library accepts the token and null when the library throws.
\<close>

theorem verifyToken_never_throws:
  "verifyToken L jwtSecret now token =
     Inr (case jwt_verify L token jwtSecret now of Inl e \<Rightarrow> None | Inr payload \<Rightarrow> Some payload)"
  by (simp add: verifyToken_def try_catch_def split: sum.splits)

text \<open>A token under another secret, an expired token and a valid one.\<close>

theorem verifyToken_never_throws_witness:
  "verifyToken demo_crypto ''secret'' 3000
     (\<lparr>userId = ''u1'', payload_username = ''a''\<rparr>, ''other'', 604802) = Inr None \<and>
   verifyToken demo_crypto ''secret'' 604802000
     (\<lparr>userId = ''u1'', payload_username = ''a''\<rparr>, ''secret'', 604802) = Inr None \<and>
   verifyToken demo_crypto ''secret'' 3000
     (\<lparr>userId = ''u1'', payload_username = ''a''\<rparr>, ''secret'', 604802)
       = Inr (Some \<lparr>userId = ''u1'', payload_username = ''a''\<rparr>)"
  using verifyToken_never_throws [of demo_crypto "''secret''" 3000
      "(\<lparr>userId = ''u1'', payload_username = ''a''\<rparr>, ''other'', 604802)"]
    verifyToken_never_throws [of demo_crypto "''secret''" 604802000
      "(\<lparr>userId = ''u1'', payload_username = ''a''\<rparr>, ''secret'', 604802)"]
    verifyToken_never_throws [of demo_crypto "''secret''" 3000
      "(\<lparr>userId = ''u1'', payload_username = ''a''\<rparr>, ''secret'', 604802)"]
  by (simp add: demo_crypto_def)

section \<open>The like toggle\<close>

text \<open>
  C4. For a stored article, whose counter is not negative, and a user who has not
  liked it, two toggles in a row are a like and an unlike, and they leave the
  article's like count at its value before the first one, and the user without a
  like on it.
\<close>

theorem like_toggle_twice:
  assumes a: "getArticleById s aid = Some a"
    and nonneg: "0 \<le> likes a"
    and n: "getLikeByUserAndArticle s uid aid = None"
  shows "\<exists>s1 s2.
           like_route k1 t1 uid aid s = (LikeJson True (likes a + 1), s1) \<and>
           like_route k2 t2 uid aid s1 = (LikeJson False (likes a), s2) \<and>
           map_option likes (getArticleById s2 aid) = Some (likes a) \<and>
           getLikeByUserAndArticle s2 uid aid = None"
proof -
  let ?like = "\<lparr>like_id = k1, like_userId = uid, like_articleId = aid, like_createdAt = t1\<rparr>"
  let ?c = "snd (createLike k1 t1 uid aid s)"
  let ?s1 = "updateArticleLikes ?c aid (likes a + 1)"
  let ?d = "deleteLike ?s1 uid aid"
  let ?s2 = "updateArticleLikes ?d aid (max 0 (likes a + 1 - 1))"
  have none: "\<forall>x \<in> set (Map_values (mem_likes s)). \<not> (like_userId x = uid \<and> like_articleId x = aid)"
    using n by (simp add: getLike_None_iff)
  have first: "like_route k1 t1 uid aid s = (LikeJson True (likes a + 1), ?s1)"
    by (rule like_route_like [OF a n])
  have ac: "getArticleById ?c aid = Some a"
    using a by (simp add: getArticleById_def mem_articles_createLike)
  have a1: "getArticleById ?s1 aid = Some (a\<lparr>likes := likes a + 1\<rparr>)"
    by (rule getArticleById_updateArticleLikes [OF ac])
  have likes1: "mem_likes ?s1 = Map_set (mem_likes s) k1 ?like"
    by (simp add: mem_likes_updateArticleLikes createLike_def Let_def)
  have l1: "getLikeByUserAndArticle ?s1 uid aid = Some ?like"
    unfolding getLikeByUserAndArticle_def likes1
    by (rule find_values_Map_set_new [OF none]) simp
  have second: "like_route k2 t2 uid aid ?s1 = (LikeJson False (max 0 (likes a + 1 - 1)), ?s2)"
    using like_route_unlike [OF a1 l1, of k2 t2] by simp
  have m: "max 0 (likes a + 1 - 1) = likes a" using nonneg by simp
  have ad: "getArticleById ?d aid = Some (a\<lparr>likes := likes a + 1\<rparr>)"
    using a1 by (simp add: getArticleById_def mem_articles_deleteLike)
  have a2: "map_option likes (getArticleById ?s2 aid) = Some (likes a)"
    using getArticleById_updateArticleLikes [OF ad, of "max 0 (likes a + 1 - 1)"] m by simp
  have likesd: "mem_likes ?d = Map_delete (Map_set (mem_likes s) k1 ?like) k1"
    using l1 likes1 by (simp add: deleteLike_def getLikeByUserAndArticle_def)
  have l2: "getLikeByUserAndArticle ?s2 uid aid = None"
    unfolding getLikeByUserAndArticle_def mem_likes_updateArticleLikes likesd
    by (rule find_values_delete_set [OF none])
  show ?thesis
    using first second a2 l2 unfolding m by blast
qed

theorem like_toggle_twice_witness:
  "\<exists>s1 s2.
     like_route ''l1'' 9000 ''u1'' ''a1'' news_store = (LikeJson True 1, s1) \<and>
     like_route ''l2'' 9500 ''u1'' ''a1'' s1 = (LikeJson False 0, s2) \<and>
     map_option likes (getArticleById s2 ''a1'') = Some 0 \<and>
     getLikeByUserAndArticle s2 ''u1'' ''a1'' = None"
proof -
  have n: "getLikeByUserAndArticle news_store ''u1'' ''a1'' = None"
    by (simp add: getLikeByUserAndArticle_def Map_values_def news_store_likes)
  show ?thesis
    using like_toggle_twice [OF news_store_a1 _ n, of "''l1''" 9000 "''l2''" 9500] by simp
qed

section \<open>Listing articles\<close>

text \<open>
  C7. With a category filter other than the empty string and \<^verbatim>\<open>all\<close>, both stores
  list only stored articles of that category, newest publication first. The limit
  is 20 when none is given. For an offset and a limit that are not negative, the
  listing is the window of that length at that offset in the full listing of the
  category, which holds every stored article of the category.
\<close>

theorem getArticles_by_category:
  assumes c: "c \<noteq> []" "c \<noteq> ''all''"
  shows "(\<forall>a \<in> set (getArticles s (Some c) lm offs).
            category a = c \<and> a \<in> set (Map_values (mem_articles s))) \<and>
         sorted_wrt (\<lambda>a b. publishedAt b \<le> publishedAt a) (getArticles s (Some c) lm offs) \<and>
         getArticles s (Some c) None offs = getArticles s (Some c) (Some 20) offs \<and>
         set (getArticles s (Some c) (Some (int (length (mem_articles s)))) (Some 0)) =
           {a \<in> set (Map_values (mem_articles s)). category a = c} \<and>
         (0 \<le> l \<and> 0 \<le> off \<longrightarrow>
            getArticles s (Some c) (Some l) (Some off) =
              take (nat l) (drop (nat off)
                (getArticles s (Some c) (Some (int (length (mem_articles s)))) (Some 0)))) \<and>
         DatabaseStorage_getArticles db (Some c) None offs =
           DatabaseStorage_getArticles db (Some c) (Some 20) offs \<and>
         (0 \<le> l \<and> 0 \<le> off \<longrightarrow>
            (\<exists>rows full.
               DatabaseStorage_getArticles db (Some c) (Some l) (Some off) = Inr rows \<and>
               DatabaseStorage_getArticles db (Some c) (Some (int (length (db_articles db)))) (Some 0)
                 = Inr full \<and>
               rows = take (nat l) (drop (nat off) full) \<and>
               set full = {a \<in> set (db_articles db). category a = c} \<and>
               (\<forall>a \<in> set rows. category a = c) \<and>
               sorted_wrt (\<lambda>a b. publishedAt b \<le> publishedAt a) full \<and>
               sorted_wrt (\<lambda>a b. publishedAt b \<le> publishedAt a) rows))"
proof (intro conjI impI)
  show "\<forall>a \<in> set (getArticles s (Some c) lm offs).
            category a = c \<and> a \<in> set (Map_values (mem_articles s))"
    by (rule conjunct1 [OF getArticles_category_mem [OF c]])
  show "sorted_wrt (\<lambda>a b. publishedAt b \<le> publishedAt a) (getArticles s (Some c) lm offs)"
    by (rule conjunct2 [OF getArticles_category_mem [OF c]])
  show "getArticles s (Some c) None offs = getArticles s (Some c) (Some 20) offs"
    by (rule getArticles_default_limit)
  show "set (getArticles s (Some c) (Some (int (length (mem_articles s)))) (Some 0)) =
           {a \<in> set (Map_values (mem_articles s)). category a = c}"
    by (rule getArticles_full_set [OF c])
  show "DatabaseStorage_getArticles db (Some c) None offs =
           DatabaseStorage_getArticles db (Some c) (Some 20) offs"
    by (rule db_getArticles_default_limit)
next
  assume lo: "0 \<le> l \<and> 0 \<le> off"
  show "getArticles s (Some c) (Some l) (Some off) =
              take (nat l) (drop (nat off)
                (getArticles s (Some c) (Some (int (length (mem_articles s)))) (Some 0)))"
    by (rule getArticles_window [OF c conjunct1 [OF lo] conjunct2 [OF lo]])
next
  assume lo: "0 \<le> l \<and> 0 \<le> off"
  show "\<exists>rows full.
               DatabaseStorage_getArticles db (Some c) (Some l) (Some off) = Inr rows \<and>
               DatabaseStorage_getArticles db (Some c) (Some (int (length (db_articles db)))) (Some 0)
                 = Inr full \<and>
               rows = take (nat l) (drop (nat off) full) \<and>
               set full = {a \<in> set (db_articles db). category a = c} \<and>
               (\<forall>a \<in> set rows. category a = c) \<and>
               sorted_wrt (\<lambda>a b. publishedAt b \<le> publishedAt a) full \<and>
               sorted_wrt (\<lambda>a b. publishedAt b \<le> publishedAt a) rows"
    by (rule getArticles_category_db [OF c conjunct1 [OF lo] conjunct2 [OF lo]])
qed

text \<open>The sports page of the two sample articles, ten to a page.\<close>

theorem getArticles_by_category_witness:
  "sorted_wrt (\<lambda>a b. publishedAt b \<le> publishedAt a)
     (getArticles news_store (Some ''sports'') (Some 10) (Some 0)) \<and>
   getArticles news_store (Some ''sports'') None (Some 0) =
     getArticles news_store (Some ''sports'') (Some 20) (Some 0) \<and>
   getArticles news_store (Some ''sports'') (Some 10) (Some 0) =
     take (nat 10) (drop (nat 0)
       (getArticles news_store (Some ''sports'') (Some (int (length (mem_articles news_store))))
          (Some 0))) \<and>
   map title (getArticles news_store (Some ''sports'') (Some 10) (Some 0)) = [''Cup final'']"
proof -
  have c: "''sports'' \<noteq> []" "''sports'' \<noteq> ''all''" by simp_all
  note th = getArticles_by_category [OF c, of news_store "Some 10" "Some 0" 10 0 news_db]
  have 1: "sorted_wrt (\<lambda>a b. publishedAt b \<le> publishedAt a)
     (getArticles news_store (Some ''sports'') (Some 10) (Some 0))"
    using th by (elim conjE)
  have 2: "getArticles news_store (Some ''sports'') None (Some 0) =
     getArticles news_store (Some ''sports'') (Some 20) (Some 0)"
    using th by (elim conjE)
  have "(0::int) \<le> 10 \<and> (0::int) \<le> 0 \<longrightarrow>
    getArticles news_store (Some ''sports'') (Some 10) (Some 0) =
     take (nat 10) (drop (nat 0)
       (getArticles news_store (Some ''sports'') (Some (int (length (mem_articles news_store))))
          (Some 0)))"
    using th by (elim conjE)
  then have 3: "getArticles news_store (Some ''sports'') (Some 10) (Some 0) =
     take (nat 10) (drop (nat 0)
       (getArticles news_store (Some ''sports'') (Some (int (length (mem_articles news_store))))
          (Some 0)))"
    by simp
  have 4: "map title (getArticles news_store (Some ''sports'') (Some 10) (Some 0)) = [''Cup final'']"
    by (simp add: getArticles_def truthy_def news_store_def createArticle_def Let_def
        business_article_def sports_article_def or_null_def sample_store_def new_MemStorage_def
        initializeSampleData_def tnpscData_def Map_values_def sort_js_def slice_def)
  show ?thesis using 1 2 3 4 by (intro conjI)
qed

text \<open>
  As stated, the claim fails at the filter \<^verbatim>\<open>all\<close>, where both stores list the
  articles of every category, and at the empty filter.
\<close>

theorem getArticles_by_category_counterexample:
  "map category (getArticles news_store (Some ''all'') None None) = [''sports'', ''business''] \<and>
   map category (getArticles news_store (Some []) None None) = [''sports'', ''business''] \<and>
   map category (projr (DatabaseStorage_getArticles news_db (Some ''all'') None None))
     = [''sports'', ''business'']"
  by (simp add: getArticles_def DatabaseStorage_getArticles_def getArticles_query_def
      run_select_def truthy_def news_db_def news_store_def createArticle_def Let_def
      business_article_def sports_article_def or_null_def sample_store_def new_MemStorage_def
      initializeSampleData_def tnpscData_def Map_values_def sort_js_def slice_def)

text \<open>
  C9. In both stores the category \<^verbatim>\<open>all\<close> gives what no category gives, for every
  limit and offset; the relational store even sends the same query.
\<close>

theorem getArticles_all_is_no_filter:
  "getArticles s (Some ''all'') lm offs = getArticles s None lm offs \<and>
   getArticles_query (Some ''all'') lm offs = getArticles_query None lm offs \<and>
   DatabaseStorage_getArticles db (Some ''all'') lm offs = DatabaseStorage_getArticles db None lm offs"
  by (simp add: getArticles_all getArticles_query_all DatabaseStorage_getArticles_def)

section \<open>Listing study resources\<close>

text \<open>
  C2. The two stores order study resources differently. After start-up and one more
  resource a second later, MemStorage lists the four resources by title, the new
  one last, while DatabaseStorage lists the same four rows by creation time, the
  new one first, as the contract's listing does.
\<close>

theorem getTnpscResources_orders_differ:
  "map (\<lambda>r. (resource_title r, resource_createdAt r))
     (getTnpscResources compare_code_units resource_store None None None) =
     [(''Geography Notes'', 1000), (''Indian Polity'', 1000), (''Tamil Nadu History'', 1000),
      (''Zoology Notes'', 2000)] \<and>
   map_sum (\<lambda>e. e) (map (\<lambda>r. (resource_title r, resource_createdAt r)))
     (DatabaseStorage_getTnpscResources resource_db None None None) =
     Inr [(''Zoology Notes'', 2000), (''Tamil Nadu History'', 1000), (''Indian Polity'', 1000),
          (''Geography Notes'', 1000)] \<and>
   map (\<lambda>r. (resource_title r, resource_createdAt r))
     (getTnpscResources_spec (Map_values (mem_tnpscResources resource_store)) None None None) =
     [(''Zoology Notes'', 2000), (''Tamil Nadu History'', 1000), (''Indian Polity'', 1000),
      (''Geography Notes'', 1000)]"
  by (simp add: getTnpscResources_def DatabaseStorage_getTnpscResources_def getTnpscResources_spec_def
      getTnpscResources_query_def supplied_eq_def run_select_def truthy_def
      resource_store_def resource_db_def DatabaseStorage_createTnpscResource_def
      sample_store_def new_MemStorage_def initializeSampleData_def
      tnpscData_def createTnpscResource_def Map_values_def Let_def zoology_def sort_js_def or_null_def)

section \<open>Bookmarks\<close>

text \<open>
  C8. When the user already has a bookmark for the pair, creating another one and
  deleting by the pair leaves one of the two in the user's list in MemStorage,
  which deletes the first match only; DatabaseStorage deletes both.
\<close>

theorem deleteBookmark_leaves_duplicate:
  "map (\<lambda>b. (bookmark_id b, resourceType b, resourceId b))
     (getBookmarksByUserId
        (deleteBookmark (snd (createBookmark ''b2'' 4000 tamil_bookmark bookmarked_store))
           ''u1'' ''tnpsc_material'' ''r1'') ''u1'') =
     [(''b2'', ''tnpsc_material'', ''r1'')] \<and>
   DatabaseStorage_getBookmarksByUserId
     (DatabaseStorage_deleteBookmark
        (snd (DatabaseStorage_createBookmark ''b2'' 4000 tamil_bookmark bookmarked_db))
        ''u1'' ''tnpsc_material'' ''r1'') ''u1'' = Inr []"
  by (simp add: getBookmarksByUserId_def deleteBookmark_def createBookmark_def bookmarked_store_def
      sample_store_def new_MemStorage_def initializeSampleData_def tnpscData_def
      tamil_bookmark_def Map_values_def Map_delete_def sort_js_def Let_def
      DatabaseStorage_getBookmarksByUserId_def DatabaseStorage_deleteBookmark_def
      DatabaseStorage_createBookmark_def bookmarked_db_def run_select_def)

section \<open>Fake-news detection\<close>

text \<open>
  C10. When the lower-cased source contains one of the six trusted names, the result
  is real with confidence 0.95 and high credibility, and no request goes to the
  model (lower-casing keeps the empty string empty). Whatever the input, a result
  never carries the credibility \<open>low\<close>: it is \<open>high\<close> or \<open>medium\<close>.
\<close>

theorem detectFakeNews_trusted:
  "(toLowerCase [] = [] \<and>
    list_ex (\<lambda>trusted. includes_js (toLowerCase src) trusted) trustedSources \<longrightarrow>
      detectFakeNews toLowerCase create JSON_parse text (Some src) =
        (Inr \<lparr>isReal = True, confidence = 95 / 100,
              explanation = ''This news comes from a trusted and verified source.'',
              sourceCredibility = high\<rparr>, [])) \<and>
   (\<forall>r sent. detectFakeNews toLowerCase' create' JSON_parse' text' src' = (Inr r, sent) \<longrightarrow>
      sourceCredibility r \<noteq> low \<and> (sourceCredibility r = high \<or> sourceCredibility r = medium))"
proof (intro conjI impI allI)
  assume h: "toLowerCase [] = [] \<and>
    list_ex (\<lambda>trusted. includes_js (toLowerCase src) trusted) trustedSources"
  then have "src \<noteq> []" using includes_js_Nil_trusted by auto
  then show "detectFakeNews toLowerCase create JSON_parse text (Some src) =
        (Inr \<lparr>isReal = True, confidence = 95 / 100,
              explanation = ''This news comes from a trusted and verified source.'',
              sourceCredibility = high\<rparr>, [])"
    using h by (simp add: detectFakeNews_def truthy_def)
next
  fix r sent
  assume d: "detectFakeNews toLowerCase' create' JSON_parse' text' src' = (Inr r, sent)"
  then show "sourceCredibility r = high \<or> sourceCredibility r = medium"
    by (auto simp: detectFakeNews_def Let_def try_catch_def split: if_splits sum.splits)
  then show "sourceCredibility r \<noteq> low" by auto
qed

text \<open>A source in mixed case, with the model out of reach.\<close>

theorem detectFakeNews_trusted_witness:
  "detectFakeNews ascii_toLowerCase offline_model strict_parse ''Rain expected'' (Some ''The Hindu'') =
     (Inr \<lparr>isReal = True, confidence = 95 / 100,
           explanation = ''This news comes from a trusted and verified source.'',
           sourceCredibility = high\<rparr>, []) \<and>
   fst (detectFakeNews ascii_toLowerCase offline_model strict_parse ''Rain expected'' (Some ''A blog''))
     = Inl (Error ''Failed to analyze news authenticity'')"
proof -
  have 1: "ascii_toLowerCase [] = []" by (simp add: ascii_toLowerCase_def)
  have 2: "list_ex (\<lambda>trusted. includes_js (ascii_toLowerCase ''The Hindu'') trusted) trustedSources"
    by (simp add: ascii_lower_hindu trustedSources_def)
  have 3: "fst (detectFakeNews ascii_toLowerCase offline_model strict_parse ''Rain expected'' (Some ''A blog''))
     = Inl (Error ''Failed to analyze news authenticity'')"
    by (simp add: detectFakeNews_def truthy_def ascii_toLowerCase_def trustedSources_def
        offline_model_def try_catch_def Let_def)
  show ?thesis
    using 1 2 3 detectFakeNews_trusted [of ascii_toLowerCase "''The Hindu''" offline_model strict_parse
        "''Rain expected''"]
    by blast
qed

end
